theory Spec2Isabelle
  imports Main
begin

section \<open>Data model\<close>

text \<open>
  JavaScript strings are modelled as Isabelle strings, one \<^typ>\<open>char\<close> per UTF-16 code
  unit, which covers the code units 0 to 255 (ASCII and Latin-1). \<open>length\<close> is then the
  \<^verbatim>\<open>.length\<close> of the source.
\<close>

datatype task_status = Pending | InProgress | Completed

datatype task_priority = Low | Medium | High

text \<open>\<^verbatim>\<open>interface Task\<close> of TaskContext.tsx; \<open>task_id\<close> is the field \<^verbatim>\<open>_id\<close>.\<close>

record Task =
  task_id :: string
  title :: string
  description :: "string option"
  status :: task_status
  priority :: task_priority
  dueDate :: "string option"
  category :: "string option"
  createdAt :: string
  updatedAt :: string
  completedAt :: "string option"

text \<open>\<^verbatim>\<open>Partial<Task>\<close>, the payload of createTask and updateTask: every field optional.\<close>

record PartialTask =
  p_title :: "string option"
  p_description :: "string option"
  p_status :: "task_status option"
  p_priority :: "task_priority option"
  p_dueDate :: "string option"
  p_category :: "string option"

record ByStatus =
  pending :: "int option"
  in_progress :: "int option"
  completed :: "int option"

record ByPriority =
  low :: "int option"
  medium :: "int option"
  high :: "int option"

record TaskStats =
  total :: int
  overdue :: int
  byStatus :: ByStatus
  byPriority :: ByPriority

text \<open>\<^verbatim>\<open>interface User\<close> of AuthContext.tsx.\<close>

record User =
  user_id :: string
  user_name :: string
  user_email :: string
  role :: string
  user_createdAt :: string
  lastLogin :: "string option"

section \<open>The API client as seen by the managers\<close>

text \<open>
  A value thrown into a \<^verbatim>\<open>catch (error)\<close> block: an object, as the errors of the HTTP
  client and of the runtime are. The handlers read only
  \<^verbatim>\<open>error.response?.data?.message\<close>; \<open>response_message\<close> is the value of that chain,
  \<open>None\<close> when a link of it is undefined.
\<close>

datatype js_error = JsError (response_message: "string option")

text \<open>
  \<^verbatim>\<open>response.data\<close> of a task request: the fields \<^verbatim>\<open>success\<close>, \<^verbatim>\<open>message\<close>
  and \<^verbatim>\<open>data\<close> that the managers read.
\<close>

record 'a response =
  success :: bool
  message :: "string option"
  data :: 'a

text \<open>\<^verbatim>\<open>response.data\<close> of an auth request: \<^verbatim>\<open>success\<close>, \<^verbatim>\<open>message\<close>, \<^verbatim>\<open>token\<close>, \<^verbatim>\<open>user\<close>.\<close>

record auth_response =
  auth_success :: bool
  auth_message :: "string option"
  auth_token :: string
  auth_user :: User

record login_body =
  login_email :: string
  login_password :: string

record register_body =
  register_name :: string
  register_email :: string
  register_password :: string

record profile_body =
  profile_name :: "string option"
  profile_email :: "string option"

text \<open>
  The module \<^verbatim>\<open>services/api\<close> is imported by both contexts. Each request the managers
  issue is a field of the record below: the awaited promise either rejects (\<open>Inl\<close>, the
  thrown value) or resolves (\<open>Inr\<close>, the body of the response). The record is a parameter
  of every operation, so a theorem quantified over it holds for every server and every
  transport failure.
\<close>

record api =
  get_tasks :: "string \<Rightarrow> js_error + Task list response"
  get_stats :: "js_error + TaskStats response"
  post_tasks :: "PartialTask \<Rightarrow> js_error + Task response"
  put_task :: "string \<Rightarrow> PartialTask \<Rightarrow> js_error + Task response"
  delete_task :: "string \<Rightarrow> js_error + Task response"
  get_task :: "string \<Rightarrow> js_error + Task response"
  get_me :: "js_error + auth_response"
  post_login :: "login_body \<Rightarrow> js_error + auth_response"
  post_register :: "register_body \<Rightarrow> js_error + auth_response"
  put_profile :: "profile_body \<Rightarrow> js_error + auth_response"

section \<open>Client state and effects\<close>

datatype toast = ToastSuccess string | ToastError string

text \<open>A request handed to the API client: the method, the URL and, for POST and PUT, the body.\<close>

datatype body =
    LoginBody login_body
  | RegisterBody register_body
  | ProfileBody profile_body
  | TaskBody PartialTask

datatype request = Get string | Post string body | Put string body | Delete string

text \<open>
  Everything the managers read and write: the \<^verbatim>\<open>token\<close> item of localStorage, the state
  of AuthProvider (\<open>user\<close>, \<open>auth_loading\<close>), the state of TaskProvider (\<open>tasks\<close>,
  \<open>stats\<close>, \<open>tasks_loading\<close>), the state of the Register page (\<open>register_loading\<close>,
  \<open>register_errors\<close>), and the notifications, the console lines and the requests
  emitted so far (newest first).
\<close>

record app_state =
  token :: "string option"
  user :: "User option"
  auth_loading :: bool
  tasks :: "Task list"
  stats :: "TaskStats option"
  tasks_loading :: bool
  register_loading :: bool
  register_errors :: "(string \<times> string) list"
  toasts :: "toast list"
  console :: "string list"
  requests :: "request list"

text \<open>
  An async function of the source: it runs from a state and ends in a state, either
  returning a value (\<open>Inr\<close>) or throwing (\<open>Inl\<close>) to its caller.
\<close>

type_synonym 'a prog = "app_state \<Rightarrow> (js_error + 'a) \<times> app_state"

definition ret :: "'a \<Rightarrow> 'a prog" where
  "ret v = (\<lambda>s. (Inr v, s))"

definition bnd :: "'a prog \<Rightarrow> ('a \<Rightarrow> 'b prog) \<Rightarrow> 'b prog" where
  "bnd m f = (\<lambda>s. case m s of (Inl e, s') \<Rightarrow> (Inl e, s') | (Inr v, s') \<Rightarrow> f v s')"

text \<open>
  \<^verbatim>\<open>await api.get(url)\<close> and its siblings: the request \<open>req\<close> is sent, and the
  promise, whose outcome is \<open>r\<close>, is awaited; a rejected promise throws at the await.
\<close>

definition await :: "request \<Rightarrow> js_error + 'a \<Rightarrow> 'a prog" where
  "await req r = (\<lambda>s. (r, s\<lparr>requests := req # requests s\<rparr>))"

definition modify :: "(app_state \<Rightarrow> app_state) \<Rightarrow> unit prog" where
  "modify f = (\<lambda>s. (Inr (), f s))"

text \<open>\<^verbatim>\<open>try { m } catch (error) { h error }\<close>\<close>

definition try_catch :: "'a prog \<Rightarrow> (js_error \<Rightarrow> 'a prog) \<Rightarrow> 'a prog" where
  "try_catch m h = (\<lambda>s. case m s of (Inl e, s') \<Rightarrow> h e s' | (Inr v, s') \<Rightarrow> (Inr v, s'))"

text \<open>\<^verbatim>\<open>try { m } finally { fin }\<close>: \<open>fin\<close> runs on both exits and keeps the outcome of \<open>m\<close>
  unless it throws itself.\<close>

definition try_finally :: "'a prog \<Rightarrow> unit prog \<Rightarrow> 'a prog" where
  "try_finally m fin =
     (\<lambda>s. case m s of (r, s') \<Rightarrow>
        (case fin s' of (Inl e, s'') \<Rightarrow> (Inl e, s'') | (Inr _, s'') \<Rightarrow> (r, s'')))"

text \<open>\<^verbatim>\<open>m || fallback\<close> on an optional string: undefined and the empty string are falsy.\<close>

definition or_else :: "string option \<Rightarrow> string \<Rightarrow> string" where
  "or_else m fallback = (case m of None \<Rightarrow> fallback | Some v \<Rightarrow> if v = [] then fallback else v)"

definition toast_success :: "string \<Rightarrow> unit prog" where
  "toast_success msg = modify (\<lambda>s. s\<lparr>toasts := ToastSuccess msg # toasts s\<rparr>)"

definition toast_error :: "string \<Rightarrow> unit prog" where
  "toast_error msg = modify (\<lambda>s. s\<lparr>toasts := ToastError msg # toasts s\<rparr>)"

definition console_error :: "string \<Rightarrow> unit prog" where
  "console_error msg = modify (\<lambda>s. s\<lparr>console := msg # console s\<rparr>)"

text \<open>The setters of \<^verbatim>\<open>useState\<close>; \<open>setTasks\<close> takes the updater function.\<close>

definition setTasks :: "(Task list \<Rightarrow> Task list) \<Rightarrow> unit prog" where
  "setTasks f = modify (\<lambda>s. s\<lparr>tasks := f (tasks s)\<rparr>)"

definition setStats :: "TaskStats \<Rightarrow> unit prog" where
  "setStats v = modify (\<lambda>s. s\<lparr>stats := Some v\<rparr>)"

definition setTasksLoading :: "bool \<Rightarrow> unit prog" where
  "setTasksLoading b = modify (\<lambda>s. s\<lparr>tasks_loading := b\<rparr>)"

section \<open>Task collection manager (TaskContext.tsx)\<close>

definition fetchStats :: "api \<Rightarrow> unit prog" where
  "fetchStats a =
     try_catch
       (bnd (await (Get ''/tasks/stats'') (get_stats a)) (\<lambda>response.
          if success response then setStats (data response) else ret ()))
       (\<lambda>error. console_error ''Fetch stats error:'')"

text \<open>
  In the three mutating operations \<^verbatim>\<open>fetchStats()\<close> is called without \<^verbatim>\<open>await\<close>; it
  touches \<open>stats\<close> and the console only, and is run here at the place of the call.
\<close>

definition createTask :: "api \<Rightarrow> PartialTask \<Rightarrow> bool prog" where
  "createTask a taskData =
     try_catch
       (bnd (await (Post ''/tasks'' (TaskBody taskData)) (post_tasks a taskData)) (\<lambda>response.
          if success response then
            bnd (setTasks (\<lambda>prev. data response # prev)) (\<lambda>_.
            bnd (toast_success ''Task created successfully!'') (\<lambda>_.
            bnd (fetchStats a) (\<lambda>_.
            ret True)))
          else
            bnd (toast_error (or_else (message response) ''Failed to create task'')) (\<lambda>_.
            ret False)))
       (\<lambda>error.
          bnd (toast_error (or_else (response_message error) ''Failed to create task'')) (\<lambda>_.
          ret False))"

definition updateTask :: "api \<Rightarrow> string \<Rightarrow> PartialTask \<Rightarrow> bool prog" where
  "updateTask a ident taskData =
     try_catch
       (bnd (await (Put (''/tasks/'' @ ident) (TaskBody taskData)) (put_task a ident taskData)) (\<lambda>response.
          if success response then
            bnd (setTasks (\<lambda>prev. map (\<lambda>task. if task_id task = ident then data response else task) prev)) (\<lambda>_.
            bnd (toast_success ''Task updated successfully!'') (\<lambda>_.
            bnd (fetchStats a) (\<lambda>_.
            ret True)))
          else
            bnd (toast_error (or_else (message response) ''Failed to update task'')) (\<lambda>_.
            ret False)))
       (\<lambda>error.
          bnd (toast_error (or_else (response_message error) ''Failed to update task'')) (\<lambda>_.
          ret False))"

definition deleteTask :: "api \<Rightarrow> string \<Rightarrow> bool prog" where
  "deleteTask a ident =
     try_catch
       (bnd (await (Delete (''/tasks/'' @ ident)) (delete_task a ident)) (\<lambda>response.
          if success response then
            bnd (setTasks (\<lambda>prev. filter (\<lambda>task. task_id task \<noteq> ident) prev)) (\<lambda>_.
            bnd (toast_success ''Task deleted successfully!'') (\<lambda>_.
            bnd (fetchStats a) (\<lambda>_.
            ret True)))
          else
            bnd (toast_error (or_else (message response) ''Failed to delete task'')) (\<lambda>_.
            ret False)))
       (\<lambda>error.
          bnd (toast_error (or_else (response_message error) ''Failed to delete task'')) (\<lambda>_.
          ret False))"

definition getTask :: "api \<Rightarrow> string \<Rightarrow> Task option prog" where
  "getTask a ident =
     try_catch
       (bnd (await (Get (''/tasks/'' @ ident)) (get_task a ident)) (\<lambda>response.
          if success response then ret (Some (data response)) else ret None))
       (\<lambda>error. bnd (console_error ''Get task error:'') (\<lambda>_. ret None))"

subsection \<open>fetchTasks and its query string\<close>

text \<open>
  The \<^verbatim>\<open>filters\<close> object: its own keys (names such as \<^verbatim>\<open>status\<close>, not array indices)
  in insertion order, which is the order of \<^verbatim>\<open>Object.keys\<close>, each with a string value or
  \<^verbatim>\<open>undefined\<close> (\<open>None\<close>). \<open>get_prop obj key\<close> is \<^verbatim>\<open>obj[key]\<close>.
\<close>

type_synonym js_object = "(string \<times> string option) list"

definition get_prop :: "js_object \<Rightarrow> string \<Rightarrow> string option" where
  "get_prop obj key = (case map_of obj key of None \<Rightarrow> None | Some v \<Rightarrow> v)"

text \<open>
  \<^verbatim>\<open>Object.keys(filters).forEach(key => { if (filters[key]) params.append(key, filters[key]) })\<close>
  on an initially empty URLSearchParams, a list of name and value pairs. Of a string or
  \<^verbatim>\<open>undefined\<close>, only a non-empty string is truthy.
\<close>

definition append_filter :: "js_object \<Rightarrow> (string \<times> string) list \<Rightarrow> string \<Rightarrow> (string \<times> string) list" where
  "append_filter filters params key =
     (case get_prop filters key of
        None \<Rightarrow> params
      | Some v \<Rightarrow> if v \<noteq> [] then params @ [(key, v)] else params)"

definition build_params :: "js_object option \<Rightarrow> (string \<times> string) list" where
  "build_params filters =
     (case filters of
        None \<Rightarrow> []
      | Some obj \<Rightarrow> foldl (append_filter obj) [] (map fst obj))"

text \<open>
  \<^verbatim>\<open>params.toString()\<close>: the application/x-www-form-urlencoded serialiser. Each code unit
  is encoded in UTF-8; the bytes of letters, digits and \<^verbatim>\<open>*-._\<close> stand for themselves,
  a space becomes \<^verbatim>\<open>+\<close>, every other byte becomes \<^verbatim>\<open>%XX\<close>.
\<close>

definition hex_digit :: "nat \<Rightarrow> char" where
  "hex_digit n = ''0123456789ABCDEF'' ! (n mod 16)"

definition utf8_bytes :: "char \<Rightarrow> nat list" where
  "utf8_bytes c =
     (let n = (of_char c :: nat)
      in if n < 128 then [n] else [192 + n div 64, 128 + n mod 64])"

definition urlencode_byte :: "nat \<Rightarrow> string" where
  "urlencode_byte b =
     (if b = 32 then ''+''
      else if b = 42 \<or> b = 45 \<or> b = 46 \<or> b = 95 \<or> (48 \<le> b \<and> b \<le> 57)
              \<or> (65 \<le> b \<and> b \<le> 90) \<or> (97 \<le> b \<and> b \<le> 122)
           then [char_of b]
      else [CHR ''%'', hex_digit (b div 16), hex_digit (b mod 16)])"

definition urlencode :: "string \<Rightarrow> string" where
  "urlencode s = concat (map urlencode_byte (concat (map utf8_bytes s)))"

fun params_toString :: "(string \<times> string) list \<Rightarrow> string" where
  "params_toString [] = []"
| "params_toString [(k, v)] = urlencode k @ ''='' @ urlencode v"
| "params_toString ((k, v) # rest) = urlencode k @ ''='' @ urlencode v @ ''&'' @ params_toString rest"

definition fetchTasks :: "api \<Rightarrow> js_object option \<Rightarrow> unit prog" where
  "fetchTasks a filters =
     try_finally
       (try_catch
          (bnd (setTasksLoading True) (\<lambda>_.
           let params = build_params filters;
               url = ''/tasks?'' @ params_toString params
           in bnd (await (Get url) (get_tasks a url)) (\<lambda>response.
              if success response then setTasks (\<lambda>_. data response) else ret ())))
          (\<lambda>error.
             bnd (console_error ''Fetch tasks error:'') (\<lambda>_.
             toast_error ''Failed to fetch tasks'')))
       (setTasksLoading False)"

text \<open>The filter state of the Tasks page (Tasks.tsx) and its \<^verbatim>\<open>handleFilterChange\<close>.\<close>

record TaskFilters =
  filter_status :: string
  filter_priority :: string
  filter_category :: string

definition handleFilterChange :: "api \<Rightarrow> TaskFilters \<Rightarrow> unit prog" where
  "handleFilterChange a filters =
     (let queryParams =
            (if filter_status filters \<noteq> [] then [(''status'', Some (filter_status filters))] else [])
          @ (if filter_priority filters \<noteq> [] then [(''priority'', Some (filter_priority filters))] else [])
          @ (if filter_category filters \<noteq> [] then [(''category'', Some (filter_category filters))] else [])
      in fetchTasks a (Some queryParams))"

section \<open>Auth session manager (AuthContext.tsx)\<close>

definition setUser :: "User option \<Rightarrow> unit prog" where
  "setUser u = modify (\<lambda>s. s\<lparr>user := u\<rparr>)"

definition setAuthLoading :: "bool \<Rightarrow> unit prog" where
  "setAuthLoading b = modify (\<lambda>s. s\<lparr>auth_loading := b\<rparr>)"

text \<open>\<^verbatim>\<open>localStorage.getItem('token')\<close>, \<^verbatim>\<open>setItem('token', t)\<close>, \<^verbatim>\<open>removeItem('token')\<close>\<close>

definition getItem_token :: "string option prog" where
  "getItem_token = (\<lambda>s. (Inr (token s), s))"

definition setItem_token :: "string \<Rightarrow> unit prog" where
  "setItem_token t = modify (\<lambda>s. s\<lparr>token := Some t\<rparr>)"

definition removeItem_token :: "unit prog" where
  "removeItem_token = modify (\<lambda>s. s\<lparr>token := None\<rparr>)"

text \<open>\<^verbatim>\<open>!token\<close> on what getItem returns: true for null and for the empty string.\<close>

definition falsy :: "string option \<Rightarrow> bool" where
  "falsy v = (case v of None \<Rightarrow> True | Some x \<Rightarrow> x = [])"

text \<open>The state AuthProvider starts from: no user, loading, whatever token storage holds.\<close>

definition initial_state :: "string option \<Rightarrow> app_state" where
  "initial_state stored =
     \<lparr>token = stored, user = None, auth_loading = True, tasks = [], stats = None,
      tasks_loading = False, register_loading = False, register_errors = [],
      toasts = [], console = [], requests = []\<rparr>"

definition checkAuthStatus :: "api \<Rightarrow> unit prog" where
  "checkAuthStatus a =
     try_finally
       (try_catch
          (bnd getItem_token (\<lambda>tok.
             if falsy tok then setAuthLoading False
             else
               bnd (await (Get ''/auth/me'') (get_me a)) (\<lambda>response.
                 if auth_success response then setUser (Some (auth_user response))
                 else removeItem_token)))
          (\<lambda>error.
             bnd (console_error ''Auth check failed:'') (\<lambda>_.
             removeItem_token)))
       (setAuthLoading False)"

definition login :: "api \<Rightarrow> string \<Rightarrow> string \<Rightarrow> bool prog" where
  "login a email_arg password_arg =
     try_catch
       (let body = \<lparr>login_email = email_arg, login_password = password_arg\<rparr>
        in bnd (await (Post ''/auth/login'' (LoginBody body)) (post_login a body)) (\<lambda>response.
          if auth_success response then
            bnd (setItem_token (auth_token response)) (\<lambda>_.
            bnd (setUser (Some (auth_user response))) (\<lambda>_.
            bnd (toast_success ''Login successful!'') (\<lambda>_.
            ret True)))
          else
            bnd (toast_error (or_else (auth_message response) ''Login failed'')) (\<lambda>_.
            ret False)))
       (\<lambda>error.
          bnd (toast_error (or_else (response_message error) ''Login failed'')) (\<lambda>_.
          ret False))"

definition register :: "api \<Rightarrow> string \<Rightarrow> string \<Rightarrow> string \<Rightarrow> bool prog" where
  "register a name_arg email_arg password_arg =
     try_catch
       (let body = \<lparr>register_name = name_arg, register_email = email_arg,
                    register_password = password_arg\<rparr>
        in bnd (await (Post ''/auth/register'' (RegisterBody body)) (post_register a body)) (\<lambda>response.
          if auth_success response then
            bnd (setItem_token (auth_token response)) (\<lambda>_.
            bnd (setUser (Some (auth_user response))) (\<lambda>_.
            bnd (toast_success ''Registration successful!'') (\<lambda>_.
            ret True)))
          else
            bnd (toast_error (or_else (auth_message response) ''Registration failed'')) (\<lambda>_.
            ret False)))
       (\<lambda>error.
          bnd (toast_error (or_else (response_message error) ''Registration failed'')) (\<lambda>_.
          ret False))"

definition logout :: "unit prog" where
  "logout =
     bnd removeItem_token (\<lambda>_.
     bnd (setUser None) (\<lambda>_.
     toast_success ''Logged out successfully''))"

definition updateProfile :: "api \<Rightarrow> profile_body \<Rightarrow> bool prog" where
  "updateProfile a body =
     try_catch
       (bnd (await (Put ''/auth/profile'' (ProfileBody body)) (put_profile a body)) (\<lambda>response.
          if auth_success response then
            bnd (setUser (Some (auth_user response))) (\<lambda>_.
            bnd (toast_success ''Profile updated successfully!'') (\<lambda>_.
            ret True))
          else
            bnd (toast_error (or_else (auth_message response) ''Profile update failed'')) (\<lambda>_.
            ret False)))
       (\<lambda>error.
          bnd (toast_error (or_else (response_message error) ''Profile update failed'')) (\<lambda>_.
          ret False))"

section \<open>Register page (Register.tsx)\<close>

record RegisterForm =
  name :: string
  email :: string
  password :: string
  confirmPassword :: string

text \<open>
  The character class \<^verbatim>\<open>\s\<close> on the code units 0 to 255: tab, line feed, vertical tab,
  form feed, carriage return, space and no-break space. \<^verbatim>\<open>\S\<close> is its complement.
\<close>

definition is_space :: "char \<Rightarrow> bool" where
  "is_space c = (let n = (of_char c :: nat) in (9 \<le> n \<and> n \<le> 13) \<or> n = 32 \<or> n = 160)"

text \<open>
  \<^verbatim>\<open>/\S+@\S+\.\S+/.test(s)\<close>. The pattern is not anchored and \<^verbatim>\<open>\S+\<close> may give back
  characters, so it matches when some non-space character is directly followed by
  \<^verbatim>\<open>@\<close>, then by one or more non-space characters, a dot and one more non-space character.
  \<open>dot_tail\<close> is \<^verbatim>\<open>\.\S\<close> at the head of the string; \<open>domain_part\<close> is
  \<^verbatim>\<open>\S+\.\S\<close> at the head of the string.
\<close>

fun dot_tail :: "string \<Rightarrow> bool" where
  "dot_tail (c # d # _) = (c = CHR ''.'' \<and> \<not> is_space d)"
| "dot_tail _ = False"

fun domain_part :: "string \<Rightarrow> bool" where
  "domain_part [] = False"
| "domain_part (c # cs) = (\<not> is_space c \<and> (dot_tail cs \<or> domain_part cs))"

fun email_test :: "string \<Rightarrow> bool" where
  "email_test (c # d # cs) =
     ((\<not> is_space c \<and> d = CHR ''@'' \<and> domain_part cs) \<or> email_test (d # cs))"
| "email_test _ = False"

text \<open>
  \<open>newErrors\<close> of \<^verbatim>\<open>validateForm\<close>: an object built by assignments to distinct keys, kept as
  the list of its entries in insertion order; it has no keys when the list is empty.
\<close>

definition register_newErrors :: "RegisterForm \<Rightarrow> (string \<times> string) list" where
  "register_newErrors formData =
       (if name formData = [] then [(''name'', ''Name is required'')]
        else if length (name formData) < 2 then [(''name'', ''Name must be at least 2 characters'')]
        else [])
     @ (if email formData = [] then [(''email'', ''Email is required'')]
        else if \<not> email_test (email formData) then [(''email'', ''Email is invalid'')]
        else [])
     @ (if password formData = [] then [(''password'', ''Password is required'')]
        else if length (password formData) < 6
          then [(''password'', ''Password must be at least 6 characters'')]
        else [])
     @ (if confirmPassword formData = [] then [(''confirmPassword'', ''Please confirm your password'')]
        else if password formData \<noteq> confirmPassword formData
          then [(''confirmPassword'', ''Passwords do not match'')]
        else [])"

definition setRegisterErrors :: "(string \<times> string) list \<Rightarrow> unit prog" where
  "setRegisterErrors es = modify (\<lambda>s. s\<lparr>register_errors := es\<rparr>)"

definition setRegisterLoading :: "bool \<Rightarrow> unit prog" where
  "setRegisterLoading b = modify (\<lambda>s. s\<lparr>register_loading := b\<rparr>)"

definition register_validateForm :: "RegisterForm \<Rightarrow> bool prog" where
  "register_validateForm formData =
     (let newErrors = register_newErrors formData
      in bnd (setRegisterErrors newErrors) (\<lambda>_. ret (newErrors = [])))"

definition register_handleSubmit :: "api \<Rightarrow> RegisterForm \<Rightarrow> unit prog" where
  "register_handleSubmit a formData =
     bnd (register_validateForm formData) (\<lambda>valid.
       if \<not> valid then ret ()
       else
         bnd (setRegisterLoading True) (\<lambda>_.
         bnd (register a (name formData) (email formData) (password formData)) (\<lambda>ok.
         bnd (setRegisterLoading False) (\<lambda>_.
         if \<not> ok then setRegisterErrors [(''general'', ''Registration failed. Please try again.'')]
         else ret ()))))"

section \<open>Task form validation (TaskForm)\<close>

record TaskFormData =
  form_title :: string
  form_description :: string
  form_status :: string
  form_priority :: string
  form_dueDate :: string
  form_category :: string

text \<open>\<^verbatim>\<open>s.trim()\<close>\<close>

definition trim :: "string \<Rightarrow> string" where
  "trim s = rev (dropWhile is_space (rev (dropWhile is_space s)))"

text \<open>
  The clock the form reads with \<^verbatim>\<open>new Date()\<close>: the current instant in milliseconds since
  the epoch, and the offset of local time from UTC in milliseconds (positive east of
  Greenwich), taken as constant over the day.
\<close>

record Clock =
  now_ms :: int
  local_tza :: int

definition msPerDay :: int where
  "msPerDay = 86400000"

definition digit_val :: "char \<Rightarrow> int option" where
  "digit_val c = (let n = (of_char c :: nat) in if 48 \<le> n \<and> n \<le> 57 then Some (int n - 48) else None)"

fun parse_digits :: "int \<Rightarrow> string \<Rightarrow> int option" where
  "parse_digits acc [] = Some acc"
| "parse_digits acc (c # cs) =
     (case digit_val c of None \<Rightarrow> None | Some d \<Rightarrow> parse_digits (10 * acc + d) cs)"

definition is_leap :: "int \<Rightarrow> bool" where
  "is_leap y = (y mod 4 = 0 \<and> (y mod 400 = 0 \<or> y mod 100 \<noteq> 0))"

definition days_in_month :: "int \<Rightarrow> int \<Rightarrow> int" where
  "days_in_month y m =
     (if m = 2 then (if is_leap y then 29 else 28)
      else if m = 4 \<or> m = 6 \<or> m = 9 \<or> m = 11 then 30 else 31)"

text \<open>The number of the day \<open>y-m-d\<close> of the Gregorian calendar, counted from 1970-01-01.\<close>

definition days_from_civil :: "int \<Rightarrow> int \<Rightarrow> int \<Rightarrow> int" where
  "days_from_civil y m d =
     (let y' = (if m \<le> 2 then y - 1 else y);
          era = y' div 400;
          yoe = y' - era * 400;
          doy = (153 * (if m > 2 then m - 3 else m + 9) + 2) div 5 + d - 1;
          doe = yoe * 365 + yoe div 4 - yoe div 100 + doy
      in era * 146097 + doe - 719468)"

text \<open>
  \<^verbatim>\<open>new Date(s).getTime()\<close> for the date-only form \<^verbatim>\<open>YYYY-MM-DD\<close>, the form a date input
  holds: ECMAScript reads it as midnight UTC of that day. Any other string is \<open>None\<close>,
  standing for NaN.
\<close>

definition Date_parse :: "string \<Rightarrow> int option" where
  "Date_parse s =
     (if length s = 10 \<and> s ! 4 = CHR ''-'' \<and> s ! 7 = CHR ''-'' then
        (case (parse_digits 0 (take 4 s), parse_digits 0 (take 2 (drop 5 s)),
               parse_digits 0 (drop 8 s)) of
           (Some y, Some m, Some d) \<Rightarrow>
             if 1 \<le> m \<and> m \<le> 12 \<and> 1 \<le> d \<and> d \<le> days_in_month y m
             then Some (days_from_civil y m d * msPerDay) else None
         | _ \<Rightarrow> None)
      else None)"

text \<open>
  \<^verbatim>\<open>new Date().setHours(0, 0, 0, 0)\<close>: the instant at which the current local day began.
  \<open>local_day\<close> is the number of that local day.
\<close>

definition local_day :: "Clock \<Rightarrow> int" where
  "local_day c = (now_ms c + local_tza c) div msPerDay"

definition setHours0 :: "Clock \<Rightarrow> int" where
  "setHours0 c = local_day c * msPerDay - local_tza c"

text \<open>\<^verbatim>\<open>a < b\<close> where \<open>a\<close> may be NaN: a comparison with NaN is false.\<close>

definition nan_less :: "int option \<Rightarrow> int \<Rightarrow> bool" where
  "nan_less a b = (case a of None \<Rightarrow> False | Some x \<Rightarrow> x < b)"

definition taskForm_newErrors :: "Clock \<Rightarrow> TaskFormData \<Rightarrow> (string \<times> string) list" where
  "taskForm_newErrors clock formData =
       (if trim (form_title formData) = [] then [(''title'', ''Title is required'')]
        else if length (form_title formData) > 100
          then [(''title'', ''Title cannot exceed 100 characters'')]
        else [])
     @ (if form_description formData \<noteq> [] \<and> length (form_description formData) > 500
          then [(''description'', ''Description cannot exceed 500 characters'')]
        else [])
     @ (if form_category formData \<noteq> [] \<and> length (form_category formData) > 50
          then [(''category'', ''Category cannot exceed 50 characters'')]
        else [])
     @ (if form_dueDate formData \<noteq> []
            \<and> nan_less (Date_parse (form_dueDate formData)) (setHours0 clock)
          then [(''dueDate'', ''Due date cannot be in the past'')]
        else [])"

definition taskForm_validateForm :: "Clock \<Rightarrow> TaskFormData \<Rightarrow> bool" where
  "taskForm_validateForm clock formData = (taskForm_newErrors clock formData = [])"

text \<open>The form shows an error under the due date: \<open>newErrors\<close> has the key \<^verbatim>\<open>dueDate\<close>.\<close>

definition dueDate_error :: "Clock \<Rightarrow> TaskFormData \<Rightarrow> bool" where
  "dueDate_error clock formData = (map_of (taskForm_newErrors clock formData) ''dueDate'' \<noteq> None)"

section \<open>Route guard (App) and the unauthorized response\<close>

datatype view = LoadingSpinner | Children | Navigate string

definition ProtectedRoute :: "app_state \<Rightarrow> view" where
  "ProtectedRoute s =
     (if auth_loading s then LoadingSpinner
      else case user s of Some _ \<Rightarrow> Children | None \<Rightarrow> Navigate ''/login'')"

text \<open>
  Modelled from the spec: the response interceptor of the API client, module
  \<^verbatim>\<open>services/api\<close>, which both contexts import and which is not among the sources. The
  specification says that any response with unauthorized status triggers client-side
  session clearing, handled by the API client's interceptor, and that the session, a token
  and a resolved user, is destroyed by it. \<open>http_status\<close> is the status code of the response.
\<close>

definition response_interceptor :: "nat \<Rightarrow> app_state \<Rightarrow> app_state" where
  "response_interceptor http_status s =
     (if http_status = 401 then s\<lparr>token := None, user := None\<rparr> else s)"

section \<open>Failure of a request\<close>

text \<open>
  A request has failed when its promise rejected (the request threw) or when it resolved
  with a falsy \<open>success\<close> flag; \<open>ok\<close> reads the flag of the response.
\<close>

definition failed :: "('r \<Rightarrow> bool) \<Rightarrow> js_error + 'r \<Rightarrow> bool" where
  "failed ok r = (case r of Inl e \<Rightarrow> True | Inr response \<Rightarrow> \<not> ok response)"

section \<open>Example values\<close>

definition task_A :: Task where
  "task_A = \<lparr>task_id = ''a1'', title = ''Buy milk'', description = None, status = Pending,
     priority = High, dueDate = None, category = None, createdAt = ''2024-06-01T08:00:00.000Z'',
     updatedAt = ''2024-06-01T08:00:00.000Z'', completedAt = None\<rparr>"

definition task_B :: Task where
  "task_B = \<lparr>task_id = ''b2'', title = ''Write report'', description = Some ''Q2'',
     status = InProgress, priority = Medium, dueDate = Some ''2024-06-15T00:00:00.000Z'',
     category = Some ''work'', createdAt = ''2024-06-02T08:00:00.000Z'',
     updatedAt = ''2024-06-03T08:00:00.000Z'', completedAt = None\<rparr>"

definition task_C :: Task where
  "task_C = \<lparr>task_id = ''c3'', title = ''Call home'', description = None, status = Completed,
     priority = Low, dueDate = None, category = None, createdAt = ''2024-06-04T08:00:00.000Z'',
     updatedAt = ''2024-06-05T08:00:00.000Z'', completedAt = Some ''2024-06-05T08:00:00.000Z''\<rparr>"

definition some_stats :: TaskStats where
  "some_stats = \<lparr>total = 3, overdue = 0,
     byStatus = \<lparr>pending = Some 1, in_progress = Some 1, completed = Some 1\<rparr>,
     byPriority = \<lparr>low = Some 1, medium = Some 1, high = Some 1\<rparr>\<rparr>"

definition some_user :: User where
  "some_user = \<lparr>user_id = ''u1'', user_name = ''Amina'', user_email = ''amina@example.org'',
     role = ''user'', user_createdAt = ''2024-05-01T08:00:00.000Z'', lastLogin = None\<rparr>"

definition some_payload :: PartialTask where
  "some_payload = \<lparr>p_title = Some ''Call home'', p_description = None, p_status = None,
     p_priority = Some Low, p_dueDate = None, p_category = None\<rparr>"

text \<open>A server that accepts every request, answering with \<open>task_C\<close> and \<open>some_user\<close>.\<close>

definition accepting_api :: api where
  "accepting_api =
     \<lparr>get_tasks = (\<lambda>_. Inr \<lparr>success = True, message = None, data = [task_C]\<rparr>),
      get_stats = Inr \<lparr>success = True, message = None, data = some_stats\<rparr>,
      post_tasks = (\<lambda>_. Inr \<lparr>success = True, message = None, data = task_C\<rparr>),
      put_task = (\<lambda>_ _. Inr \<lparr>success = True, message = None, data = task_C\<rparr>),
      delete_task = (\<lambda>_. Inr \<lparr>success = True, message = None, data = task_C\<rparr>),
      get_task = (\<lambda>_. Inr \<lparr>success = True, message = None, data = task_C\<rparr>),
      get_me = Inr \<lparr>auth_success = True, auth_message = None, auth_token = ''t0k'',
                    auth_user = some_user\<rparr>,
      post_login = (\<lambda>_. Inr \<lparr>auth_success = True, auth_message = None, auth_token = ''t0k'',
                    auth_user = some_user\<rparr>),
      post_register = (\<lambda>_. Inr \<lparr>auth_success = True, auth_message = None, auth_token = ''t0k'',
                    auth_user = some_user\<rparr>),
      put_profile = (\<lambda>_. Inr \<lparr>auth_success = True, auth_message = None, auth_token = ''t0k'',
                    auth_user = some_user\<rparr>)\<rparr>"

text \<open>A server that cannot be reached: every promise rejects.\<close>

definition unreachable_api :: api where
  "unreachable_api =
     \<lparr>get_tasks = (\<lambda>_. Inl (JsError None)),
      get_stats = Inl (JsError None),
      post_tasks = (\<lambda>_. Inl (JsError None)),
      put_task = (\<lambda>_ _. Inl (JsError None)),
      delete_task = (\<lambda>_. Inl (JsError None)),
      get_task = (\<lambda>_. Inl (JsError None)),
      get_me = Inl (JsError None),
      post_login = (\<lambda>_. Inl (JsError None)),
      post_register = (\<lambda>_. Inl (JsError None)),
      put_profile = (\<lambda>_. Inl (JsError None))\<rparr>"

definition held_state :: app_state where
  "held_state =
     \<lparr>token = Some ''t0k'', user = Some some_user, auth_loading = False,
      tasks = [task_A, task_B], stats = None, tasks_loading = False,
      register_loading = False, register_errors = [], toasts = [], console = [],
      requests = []\<rparr>"

section \<open>Basic facts about the effects\<close>

lemma fetchStats_returns: "fst (fetchStats a s) = Inr ()"
  by (cases "get_stats a")
     (simp_all add: fetchStats_def try_catch_def bnd_def await_def ret_def setStats_def
        console_error_def modify_def)

lemma fetchStats_tasks: "tasks (snd (fetchStats a s)) = tasks s"
  by (cases "get_stats a")
     (simp_all add: fetchStats_def try_catch_def bnd_def await_def ret_def setStats_def
        console_error_def modify_def)


lemmas prog_defs =
  ret_def bnd_def await_def modify_def try_catch_def try_finally_def
  toast_success_def toast_error_def console_error_def
  setTasks_def setStats_def setTasksLoading_def
  setUser_def setAuthLoading_def getItem_token_def setItem_token_def removeItem_token_def
  setRegisterErrors_def setRegisterLoading_def

lemma fetchStats_requests: "requests (snd (fetchStats a s)) = Get ''/tasks/stats'' # requests s"
  by (cases "get_stats a") (simp_all add: fetchStats_def prog_defs)

lemma bnd_fetchStats: "bnd (fetchStats a) f = (\<lambda>s. f () (snd (fetchStats a s)))"
proof
  fix s
  show "bnd (fetchStats a) f s = f () (snd (fetchStats a s))"
    using fetchStats_returns [of a s] by (cases "fetchStats a s") (simp add: bnd_def)
qed

lemma createTask_resolved:
  assumes "post_tasks a taskData = Inr response"
  shows "createTask a taskData s =
     (if success response
      then (Inr True, snd (fetchStats a (s\<lparr>requests := Post ''/tasks'' (TaskBody taskData) # requests s,
              tasks := data response # tasks s,
              toasts := ToastSuccess ''Task created successfully!'' # toasts s\<rparr>)))
      else (Inr False, s\<lparr>requests := Post ''/tasks'' (TaskBody taskData) # requests s,
              toasts := ToastError (or_else (message response) ''Failed to create task'') # toasts s\<rparr>))"
  using assms unfolding createTask_def bnd_fetchStats
  by (simp add: prog_defs)

lemma createTask_rejected:
  assumes "post_tasks a taskData = Inl e"
  shows "createTask a taskData s =
     (Inr False, s\<lparr>requests := Post ''/tasks'' (TaskBody taskData) # requests s,
              toasts := ToastError (or_else (response_message e) ''Failed to create task'') # toasts s\<rparr>)"
  using assms by (simp add: createTask_def prog_defs)

section \<open>The held task list\<close>

text \<open>
  C1. For every held task list and every create payload: when createTask succeeds (the
  request resolves with \<open>success\<close> true) it returns true and the record returned by the
  server is the first element of the held list, followed by all previous elements in
  their order; when it fails (the request resolves with \<open>success\<close> false, or it throws)
  it returns false and the held list is the list held before the call.
\<close>

theorem createTask_held_list:
  "(post_tasks a taskData = Inr response \<and> success response \<longrightarrow>
      fst (createTask a taskData s) = Inr True \<and>
      tasks (snd (createTask a taskData s)) = data response # tasks s) \<and>
   ((post_tasks a taskData = Inr response \<and> \<not> success response) \<or> post_tasks a taskData = Inl e \<longrightarrow>
      fst (createTask a taskData s) = Inr False \<and>
      tasks (snd (createTask a taskData s)) = tasks s)"
  by (auto simp add: createTask_resolved createTask_rejected fetchStats_tasks)

theorem createTask_held_list_witness:
  "post_tasks accepting_api some_payload = Inr \<lparr>success = True, message = None, data = task_C\<rparr> \<and>
   fst (createTask accepting_api some_payload held_state) = Inr True \<and>
   tasks (snd (createTask accepting_api some_payload held_state)) = [task_C, task_A, task_B] \<and>
   post_tasks unreachable_api some_payload = Inl (JsError None) \<and>
   fst (createTask unreachable_api some_payload held_state) = Inr False \<and>
   tasks (snd (createTask unreachable_api some_payload held_state)) = [task_A, task_B]"
  using createTask_held_list [of accepting_api some_payload
          "\<lparr>success = True, message = None, data = task_C\<rparr>" held_state "JsError None"]
        createTask_held_list [of unreachable_api some_payload
          "\<lparr>success = True, message = None, data = task_C\<rparr>" held_state "JsError None"]
  by (simp add: accepting_api_def unreachable_api_def held_state_def)

lemma updateTask_resolved:
  assumes "put_task a ident taskData = Inr response"
  shows "updateTask a ident taskData s =
     (if success response
      then (Inr True, snd (fetchStats a (s\<lparr>requests := Put (''/tasks/'' @ ident) (TaskBody taskData) # requests s,
              tasks := map (\<lambda>task. if task_id task = ident then data response else task) (tasks s),
              toasts := ToastSuccess ''Task updated successfully!'' # toasts s\<rparr>)))
      else (Inr False, s\<lparr>requests := Put (''/tasks/'' @ ident) (TaskBody taskData) # requests s,
              toasts := ToastError (or_else (message response) ''Failed to update task'') # toasts s\<rparr>))"
  using assms unfolding updateTask_def bnd_fetchStats
  by (simp add: prog_defs)

lemma updateTask_rejected:
  assumes "put_task a ident taskData = Inl e"
  shows "updateTask a ident taskData s =
     (Inr False, s\<lparr>requests := Put (''/tasks/'' @ ident) (TaskBody taskData) # requests s,
              toasts := ToastError (or_else (response_message e) ''Failed to update task'') # toasts s\<rparr>)"
  using assms by (simp add: updateTask_def prog_defs)

lemma deleteTask_resolved:
  assumes "delete_task a ident = Inr response"
  shows "deleteTask a ident s =
     (if success response
      then (Inr True, snd (fetchStats a (s\<lparr>requests := Delete (''/tasks/'' @ ident) # requests s,
              tasks := filter (\<lambda>task. task_id task \<noteq> ident) (tasks s),
              toasts := ToastSuccess ''Task deleted successfully!'' # toasts s\<rparr>)))
      else (Inr False, s\<lparr>requests := Delete (''/tasks/'' @ ident) # requests s,
              toasts := ToastError (or_else (message response) ''Failed to delete task'') # toasts s\<rparr>))"
  using assms unfolding deleteTask_def bnd_fetchStats
  by (simp add: prog_defs)

lemma deleteTask_rejected:
  assumes "delete_task a ident = Inl e"
  shows "deleteTask a ident s =
     (Inr False, s\<lparr>requests := Delete (''/tasks/'' @ ident) # requests s,
              toasts := ToastError (or_else (response_message e) ''Failed to delete task'') # toasts s\<rparr>)"
  using assms by (simp add: deleteTask_def prog_defs)

lemma getTask_result:
  "getTask a ident s =
     ((case get_task a ident of
         Inl e \<Rightarrow> Inr None
       | Inr response \<Rightarrow> Inr (if success response then Some (data response) else None)),
      (case get_task a ident of
         Inl e \<Rightarrow> s\<lparr>requests := Get (''/tasks/'' @ ident) # requests s,
                    console := ''Get task error:'' # console s\<rparr>
       | Inr response \<Rightarrow> s\<lparr>requests := Get (''/tasks/'' @ ident) # requests s\<rparr>))"
  by (cases "get_task a ident") (simp_all add: getTask_def prog_defs)

text \<open>
  C2. When updateTask succeeds, the held list keeps its length, and at every position the
  task is the record returned by the server if the identifier of the task held there
  equals the given one, and the task held there before otherwise.
\<close>

theorem updateTask_replaces_in_place:
  assumes "put_task a ident taskData = Inr response" and "success response"
  shows "fst (updateTask a ident taskData s) = Inr True \<and>
     length (tasks (snd (updateTask a ident taskData s))) = length (tasks s) \<and>
     (\<forall>i < length (tasks s).
        tasks (snd (updateTask a ident taskData s)) ! i =
          (if task_id (tasks s ! i) = ident then data response else tasks s ! i))"
  using assms by (simp add: updateTask_resolved fetchStats_tasks)

theorem updateTask_replaces_in_place_witness:
  "put_task accepting_api ''b2'' some_payload = Inr \<lparr>success = True, message = None, data = task_C\<rparr> \<and>
   tasks held_state = [task_A, task_B] \<and>
   task_id task_A \<noteq> ''b2'' \<and> task_id task_B = ''b2'' \<and>
   length (tasks (snd (updateTask accepting_api ''b2'' some_payload held_state))) = 2 \<and>
   tasks (snd (updateTask accepting_api ''b2'' some_payload held_state)) ! 0 = task_A \<and>
   tasks (snd (updateTask accepting_api ''b2'' some_payload held_state)) ! 1 = task_C"
  using updateTask_replaces_in_place [of accepting_api "''b2''" some_payload
          "\<lparr>success = True, message = None, data = task_C\<rparr>" held_state]
  by (simp add: accepting_api_def held_state_def task_A_def task_B_def)

text \<open>
  C3. When deleteTask succeeds, the held list afterwards is the previous list without the
  tasks whose identifier equals the given one: no such task remains, and every other task
  is retained, in its original order.
\<close>

theorem deleteTask_removes_matching:
  assumes "delete_task a ident = Inr response" and "success response"
  shows "fst (deleteTask a ident s) = Inr True \<and>
     tasks (snd (deleteTask a ident s)) = filter (\<lambda>task. task_id task \<noteq> ident) (tasks s) \<and>
     (\<forall>task \<in> set (tasks (snd (deleteTask a ident s))). task_id task \<noteq> ident) \<and>
     (\<forall>task \<in> set (tasks s). task_id task \<noteq> ident \<longrightarrow>
        task \<in> set (tasks (snd (deleteTask a ident s))))"
  using assms by (simp add: deleteTask_resolved fetchStats_tasks)

theorem deleteTask_removes_matching_witness:
  "delete_task accepting_api ''a1'' = Inr \<lparr>success = True, message = None, data = task_C\<rparr> \<and>
   tasks held_state = [task_A, task_B] \<and>
   tasks (snd (deleteTask accepting_api ''a1'' held_state)) = [task_B]"
  using deleteTask_removes_matching [of accepting_api "''a1''"
          "\<lparr>success = True, message = None, data = task_C\<rparr>" held_state]
  by (simp add: accepting_api_def held_state_def task_A_def task_B_def)

text \<open>
  C9. When the given identifier matches no task of the held list, a successful updateTask
  leaves the held list as it was: the record returned by the server is not inserted,
  although the operation returns true and requests the statistics again.
\<close>

theorem updateTask_unknown_id_keeps_list:
  assumes "put_task a ident taskData = Inr response" and "success response"
    and "\<forall>task \<in> set (tasks s). task_id task \<noteq> ident"
  shows "tasks (snd (updateTask a ident taskData s)) = tasks s \<and>
     fst (updateTask a ident taskData s) = Inr True \<and>
     requests (snd (updateTask a ident taskData s)) =
       Get ''/tasks/stats'' # Put (''/tasks/'' @ ident) (TaskBody taskData) # requests s"
proof -
  have "map (\<lambda>task. if task_id task = ident then data response else task) (tasks s) = tasks s"
    using assms(3) by (induction "tasks s") (simp_all add: map_idI)
  then show ?thesis
    using assms(1,2) by (simp add: updateTask_resolved fetchStats_tasks fetchStats_requests)
qed

theorem updateTask_unknown_id_keeps_list_witness:
  "put_task accepting_api ''zz'' some_payload = Inr \<lparr>success = True, message = None, data = task_C\<rparr> \<and>
   tasks held_state = [task_A, task_B] \<and> task_id task_A \<noteq> ''zz'' \<and> task_id task_B \<noteq> ''zz'' \<and>
   tasks (snd (updateTask accepting_api ''zz'' some_payload held_state)) = tasks held_state \<and>
   fst (updateTask accepting_api ''zz'' some_payload held_state) = Inr True"
  using updateTask_unknown_id_keeps_list [of accepting_api "''zz''" some_payload
          "\<lparr>success = True, message = None, data = task_C\<rparr>" held_state]
  by (simp add: accepting_api_def held_state_def task_A_def task_B_def)

section \<open>fetchTasks\<close>

lemma foldl_append_filter:
  assumes "\<forall>(k, v) \<in> set kvs. get_prop obj k = v"
  shows "foldl (append_filter obj) acc (map fst kvs) = acc @ [(k, v). (k, Some v) \<leftarrow> kvs, v \<noteq> []]"
  using assms
proof (induction kvs arbitrary: acc)
  case Nil
  then show ?case by simp
next
  case (Cons kv kvs)
  obtain k v where kv: "kv = (k, v)" by (cases kv)
  from Cons.prems kv have here: "get_prop obj k = v" by simp
  from Cons.prems have rest: "\<forall>(k, v) \<in> set kvs. get_prop obj k = v" by simp
  show ?case
    using Cons.IH [OF rest] here kv
    by (cases v) (simp_all add: append_filter_def)
qed

lemma get_prop_distinct:
  assumes "distinct (map fst obj)"
  shows "\<forall>(k, v) \<in> set obj. get_prop obj k = v"
  using assms by (auto simp add: get_prop_def)

lemma build_params_Some:
  assumes "distinct (map fst obj)"
  shows "build_params (Some obj) = [(k, v). (k, Some v) \<leftarrow> obj, v \<noteq> []]"
  using foldl_append_filter [OF get_prop_distinct [OF assms], of "[]"]
  by (simp add: build_params_def)

lemma fetchTasks_result:
  "fetchTasks a filters s =
     (Inr (),
      (case get_tasks a (''/tasks?'' @ params_toString (build_params filters)) of
         Inl e \<Rightarrow> s\<lparr>tasks_loading := False,
                   requests := Get (''/tasks?'' @ params_toString (build_params filters)) # requests s,
                   console := ''Fetch tasks error:'' # console s,
                   toasts := ToastError ''Failed to fetch tasks'' # toasts s\<rparr>
       | Inr response \<Rightarrow>
           if success response
           then s\<lparr>tasks_loading := False,
                  requests := Get (''/tasks?'' @ params_toString (build_params filters)) # requests s,
                  tasks := data response\<rparr>
           else s\<lparr>tasks_loading := False,
                  requests := Get (''/tasks?'' @ params_toString (build_params filters)) # requests s\<rparr>))"
  by (cases "get_tasks a (''/tasks?'' @ params_toString (build_params filters))")
     (simp_all add: fetchTasks_def prog_defs Let_def)

lemma fetchTasks_requests:
  "requests (snd (fetchTasks a filters s)) =
     Get (''/tasks?'' @ params_toString (build_params filters)) # requests s"
  by (simp add: fetchTasks_result split: sum.splits)

text \<open>
  C4. The parameters fetchTasks appends are, in the order of the keys of the filters
  object, exactly the entries whose value is a non-empty string: an entry with an empty
  or undefined value, and a key the object does not have, contribute nothing (the keys of
  an object are distinct); without a filters object there are none. The request is a GET
  of \<^verbatim>\<open>/tasks?\<close> followed by the serialised parameters, and when it resolves with
  \<open>success\<close> true the held list becomes the data of the response, whatever was held.
\<close>

theorem fetchTasks_query_and_replace:
  "(distinct (map fst obj) \<longrightarrow>
      build_params (Some obj) = [(k, v). (k, Some v) \<leftarrow> obj, v \<noteq> []]) \<and>
   build_params None = [] \<and>
   requests (snd (fetchTasks a filters s)) =
     Get (''/tasks?'' @ params_toString (build_params filters)) # requests s \<and>
   (get_tasks a (''/tasks?'' @ params_toString (build_params filters)) = Inr response \<and>
    success response \<longrightarrow>
      tasks (snd (fetchTasks a filters s)) = data response)"
proof (intro conjI impI)
  show "build_params (Some obj) = [(k, v). (k, Some v) \<leftarrow> obj, v \<noteq> []]"
    if "distinct (map fst obj)" using that by (rule build_params_Some)
  show "build_params None = []" by (simp add: build_params_def)
  show "requests (snd (fetchTasks a filters s)) =
     Get (''/tasks?'' @ params_toString (build_params filters)) # requests s"
    by (simp add: fetchTasks_result split: sum.splits)
  show "tasks (snd (fetchTasks a filters s)) = data response"
    if "get_tasks a (''/tasks?'' @ params_toString (build_params filters)) = Inr response \<and>
        success response"
    using that by (simp add: fetchTasks_result)
qed

lemma handleFilterChange_params:
  "handleFilterChange a f s =
     fetchTasks a (Some (
         (if filter_status f \<noteq> [] then [(''status'', Some (filter_status f))] else [])
       @ (if filter_priority f \<noteq> [] then [(''priority'', Some (filter_priority f))] else [])
       @ (if filter_category f \<noteq> [] then [(''category'', Some (filter_category f))] else []))) s"
  by (simp add: handleFilterChange_def)

lemma handleFilterChange_request:
  "requests (snd (handleFilterChange a f s)) =
     Get (''/tasks?'' @ params_toString
       [(k, v) \<leftarrow> [(''status'', filter_status f), (''priority'', filter_priority f),
                    (''category'', filter_category f)]. v \<noteq> []]) # requests s"
proof -
  let ?obj = "(if filter_status f \<noteq> [] then [(''status'', Some (filter_status f))] else [])
       @ (if filter_priority f \<noteq> [] then [(''priority'', Some (filter_priority f))] else [])
       @ (if filter_category f \<noteq> [] then [(''category'', Some (filter_category f))] else [])"
  have "distinct (map fst ?obj)" by simp
  then have params: "build_params (Some ?obj) =
      [(k, v) \<leftarrow> [(''status'', filter_status f), (''priority'', filter_priority f),
                    (''category'', filter_category f)]. v \<noteq> []]"
    by (simp add: build_params_Some)
  have "requests (snd (fetchTasks a (Some ?obj) s)) =
      Get (''/tasks?'' @ params_toString (build_params (Some ?obj))) # requests s"
    by (rule fetchTasks_requests)
  then show ?thesis
    by (simp only: handleFilterChange_params params)
qed

theorem fetchTasks_query_and_replace_witness:
  "distinct (map fst [(''status'', Some ''completed''), (''priority'', Some ''''), (''category'', None)]) \<and>
   build_params (Some [(''status'', Some ''completed''), (''priority'', Some ''''), (''category'', None)])
     = [(''status'', ''completed'')] \<and>
   get_tasks accepting_api (''/tasks?status=completed'') = Inr \<lparr>success = True, message = None, data = [task_C]\<rparr> \<and>
   requests (snd (fetchTasks accepting_api
      (Some [(''status'', Some ''completed''), (''priority'', Some ''''), (''category'', None)]) held_state))
     = [Get ''/tasks?status=completed''] \<and>
   tasks held_state = [task_A, task_B] \<and>
   tasks (snd (fetchTasks accepting_api
      (Some [(''status'', Some ''completed''), (''priority'', Some ''''), (''category'', None)]) held_state))
     = [task_C]"
proof -
  let ?obj = "[(''status'', Some ''completed''), (''priority'', Some ''''), (''category'', None)]"
  have d: "distinct (map fst ?obj)" by simp
  have p: "build_params (Some ?obj) = [(''status'', ''completed'')]"
    using fetchTasks_query_and_replace [of ?obj] d by simp
  have u: "params_toString [(''status'', ''completed'')] = ''status=completed''"
    by code_simp
  show ?thesis
    using fetchTasks_query_and_replace [of ?obj accepting_api "Some ?obj" held_state
        "\<lparr>success = True, message = None, data = [task_C]\<rparr>"]
    unfolding p u
    by (simp add: accepting_api_def held_state_def)
qed

section \<open>No operation throws\<close>

lemma login_returns:
  "fst (login a e p s) =
     Inr (case post_login a \<lparr>login_email = e, login_password = p\<rparr> of
            Inl err \<Rightarrow> False | Inr response \<Rightarrow> auth_success response)"
  by (cases "post_login a \<lparr>login_email = e, login_password = p\<rparr>")
     (simp_all add: login_def prog_defs Let_def)

lemma register_returns:
  "fst (register a n e p s) =
     Inr (case post_register a \<lparr>register_name = n, register_email = e, register_password = p\<rparr> of
            Inl err \<Rightarrow> False | Inr response \<Rightarrow> auth_success response)"
  by (cases "post_register a \<lparr>register_name = n, register_email = e, register_password = p\<rparr>")
     (simp_all add: register_def prog_defs Let_def)

lemma register_requests:
  "requests (snd (register a n e p s)) =
     Post ''/auth/register''
       (RegisterBody \<lparr>register_name = n, register_email = e, register_password = p\<rparr>) # requests s"
  by (cases "post_register a \<lparr>register_name = n, register_email = e, register_password = p\<rparr>")
     (simp_all add: register_def prog_defs Let_def)

lemma updateProfile_returns:
  "fst (updateProfile a body s) =
     Inr (case put_profile a body of Inl err \<Rightarrow> False | Inr response \<Rightarrow> auth_success response)"
  by (cases "put_profile a body") (simp_all add: updateProfile_def prog_defs)

lemma createTask_returns:
  "fst (createTask a taskData s) =
     Inr (case post_tasks a taskData of Inl err \<Rightarrow> False | Inr response \<Rightarrow> success response)"
  by (cases "post_tasks a taskData") (simp_all add: createTask_resolved createTask_rejected)

lemma updateTask_returns:
  "fst (updateTask a ident taskData s) =
     Inr (case put_task a ident taskData of Inl err \<Rightarrow> False | Inr response \<Rightarrow> success response)"
  by (cases "put_task a ident taskData") (simp_all add: updateTask_resolved updateTask_rejected)

lemma deleteTask_returns:
  "fst (deleteTask a ident s) =
     Inr (case delete_task a ident of Inl err \<Rightarrow> False | Inr response \<Rightarrow> success response)"
  by (cases "delete_task a ident") (simp_all add: deleteTask_resolved deleteTask_rejected)

lemma getTask_returns:
  "fst (getTask a ident s) =
     Inr (case get_task a ident of
            Inl err \<Rightarrow> None
          | Inr response \<Rightarrow> if success response then Some (data response) else None)"
  by (cases "get_task a ident") (simp_all add: getTask_result)

text \<open>
  C5. For every input, every state and every server response or transport error, each of
  login, register, updateProfile, createTask, updateTask, deleteTask and getTask returns
  a value to its caller and throws nothing; when its request fails, that value is false,
  and null (\<open>None\<close>) for getTask. Every operation is a total function, so it terminates.
\<close>

theorem manager_operations_never_throw:
  "(\<exists>b. fst (login a e p s) = Inr b) \<and>
   (\<exists>b. fst (register a n e p s) = Inr b) \<and>
   (\<exists>b. fst (updateProfile a profile s) = Inr b) \<and>
   (\<exists>b. fst (createTask a taskData s) = Inr b) \<and>
   (\<exists>b. fst (updateTask a ident taskData s) = Inr b) \<and>
   (\<exists>b. fst (deleteTask a ident s) = Inr b) \<and>
   (\<exists>t. fst (getTask a ident s) = Inr t) \<and>
   (failed auth_success (post_login a \<lparr>login_email = e, login_password = p\<rparr>) \<longrightarrow>
      fst (login a e p s) = Inr False) \<and>
   (failed auth_success
      (post_register a \<lparr>register_name = n, register_email = e, register_password = p\<rparr>) \<longrightarrow>
      fst (register a n e p s) = Inr False) \<and>
   (failed auth_success (put_profile a profile) \<longrightarrow> fst (updateProfile a profile s) = Inr False) \<and>
   (failed success (post_tasks a taskData) \<longrightarrow> fst (createTask a taskData s) = Inr False) \<and>
   (failed success (put_task a ident taskData) \<longrightarrow>
      fst (updateTask a ident taskData s) = Inr False) \<and>
   (failed success (delete_task a ident) \<longrightarrow> fst (deleteTask a ident s) = Inr False) \<and>
   (failed success (get_task a ident) \<longrightarrow> fst (getTask a ident s) = Inr None)"
  unfolding login_returns register_returns updateProfile_returns createTask_returns
    updateTask_returns deleteTask_returns getTask_returns failed_def
  by (simp split: sum.splits)

theorem manager_operations_never_throw_witness:
  "failed auth_success (post_login unreachable_api \<lparr>login_email = ''amina@example.org'', login_password = ''secret1''\<rparr>) \<and>
   fst (login unreachable_api ''amina@example.org'' ''secret1'' held_state) = Inr False \<and>
   failed auth_success (post_register unreachable_api
      \<lparr>register_name = ''Amina'', register_email = ''amina@example.org'', register_password = ''secret1''\<rparr>) \<and>
   fst (register unreachable_api ''Amina'' ''amina@example.org'' ''secret1'' held_state) = Inr False \<and>
   failed auth_success (put_profile unreachable_api \<lparr>profile_name = Some ''Amina'', profile_email = None\<rparr>) \<and>
   fst (updateProfile unreachable_api \<lparr>profile_name = Some ''Amina'', profile_email = None\<rparr> held_state) = Inr False \<and>
   failed success (post_tasks unreachable_api some_payload) \<and>
   fst (createTask unreachable_api some_payload held_state) = Inr False \<and>
   failed success (put_task unreachable_api ''a1'' some_payload) \<and>
   fst (updateTask unreachable_api ''a1'' some_payload held_state) = Inr False \<and>
   failed success (delete_task unreachable_api ''a1'') \<and>
   fst (deleteTask unreachable_api ''a1'' held_state) = Inr False \<and>
   failed success (get_task unreachable_api ''a1'') \<and>
   fst (getTask unreachable_api ''a1'' held_state) = Inr None"
  using manager_operations_never_throw [of unreachable_api "''amina@example.org''" "''secret1''"
      held_state "''Amina''" "\<lparr>profile_name = Some ''Amina'', profile_email = None\<rparr>"
      some_payload "''a1''"]
  by (simp add: unreachable_api_def failed_def)

section \<open>Restoring the session\<close>

lemma checkAuthStatus_present:
  assumes "token s = Some stored" and "stored \<noteq> []"
  shows "checkAuthStatus a s =
     (Inr (),
      (case get_me a of
         Inl e \<Rightarrow> s\<lparr>requests := Get ''/auth/me'' # requests s,
                   console := ''Auth check failed:'' # console s,
                   token := None, auth_loading := False\<rparr>
       | Inr response \<Rightarrow>
           if auth_success response
           then s\<lparr>requests := Get ''/auth/me'' # requests s,
                  user := Some (auth_user response), auth_loading := False\<rparr>
           else s\<lparr>requests := Get ''/auth/me'' # requests s,
                  token := None, auth_loading := False\<rparr>))"
  using assms
  by (cases "get_me a") (simp_all add: checkAuthStatus_def prog_defs falsy_def)

lemma checkAuthStatus_absent:
  assumes "falsy (token s)"
  shows "checkAuthStatus a s = (Inr (), s\<lparr>auth_loading := False\<rparr>)"
  using assms by (simp add: checkAuthStatus_def prog_defs)

text \<open>
  C6. On initialisation with a token present in storage (a non-empty string, which is what
  the guard \<^verbatim>\<open>!token\<close> lets through), checkAuthStatus requests the current user. When
  that fails, by a thrown error or a response with \<open>success\<close> false, the token is removed
  and the user stays null; when it succeeds, the returned user becomes the session user and
  the token is kept.
\<close>

theorem checkAuthStatus_resolves_session:
  assumes "stored \<noteq> []"
  shows
   "fst (checkAuthStatus a (initial_state (Some stored))) = Inr () \<and>
    requests (snd (checkAuthStatus a (initial_state (Some stored)))) = [Get ''/auth/me''] \<and>
    (failed auth_success (get_me a) \<longrightarrow>
       token (snd (checkAuthStatus a (initial_state (Some stored)))) = None \<and>
       user (snd (checkAuthStatus a (initial_state (Some stored)))) = None) \<and>
    (get_me a = Inr response \<and> auth_success response \<longrightarrow>
       user (snd (checkAuthStatus a (initial_state (Some stored)))) = Some (auth_user response) \<and>
       token (snd (checkAuthStatus a (initial_state (Some stored)))) = Some stored)"
proof -
  have t: "token (initial_state (Some stored)) = Some stored"
    by (simp add: initial_state_def)
  show ?thesis
    unfolding checkAuthStatus_present [OF t assms]
    by (simp add: initial_state_def failed_def split: sum.splits)
qed

theorem checkAuthStatus_resolves_session_witness:
  "''t0k'' \<noteq> [] \<and>
   failed auth_success (get_me unreachable_api) \<and>
   token (snd (checkAuthStatus unreachable_api (initial_state (Some ''t0k'')))) = None \<and>
   user (snd (checkAuthStatus unreachable_api (initial_state (Some ''t0k'')))) = None \<and>
   get_me accepting_api = Inr \<lparr>auth_success = True, auth_message = None, auth_token = ''t0k'',
                    auth_user = some_user\<rparr> \<and>
   user (snd (checkAuthStatus accepting_api (initial_state (Some ''t0k'')))) = Some some_user \<and>
   token (snd (checkAuthStatus accepting_api (initial_state (Some ''t0k'')))) = Some ''t0k''"
  using checkAuthStatus_resolves_session [of "''t0k''" unreachable_api]
        checkAuthStatus_resolves_session [of "''t0k''" accepting_api
          "\<lparr>auth_success = True, auth_message = None, auth_token = ''t0k'', auth_user = some_user\<rparr>"]
  by (simp add: unreachable_api_def accepting_api_def failed_def)

section \<open>Unauthorized responses\<close>

text \<open>
  C8. After a response with the unauthorized status 401 the interceptor has destroyed the
  session, token and user, whatever it held; the route guard then never renders the
  protected view, and once the initial check of the session is over (\<open>auth_loading\<close>
  false) it redirects to the login view.
\<close>

theorem unauthorized_clears_session:
  assumes "http_status = 401"
  shows "token (response_interceptor http_status s) = None \<and>
     user (response_interceptor http_status s) = None \<and>
     ProtectedRoute (response_interceptor http_status s) \<noteq> Children \<and>
     (\<not> auth_loading s \<longrightarrow>
        ProtectedRoute (response_interceptor http_status s) = Navigate ''/login'')"
  using assms by (simp add: response_interceptor_def ProtectedRoute_def)

theorem unauthorized_clears_session_witness:
  "(401::nat) = 401 \<and> \<not> auth_loading held_state \<and>
   ProtectedRoute held_state = Children \<and>
   token (response_interceptor 401 held_state) = None \<and>
   user (response_interceptor 401 held_state) = None \<and>
   ProtectedRoute (response_interceptor 401 held_state) = Navigate ''/login''"
  using unauthorized_clears_session [of 401 held_state]
  by (simp add: held_state_def ProtectedRoute_def)

section \<open>The registration request\<close>

lemma register_handleSubmit_valid:
  assumes "register_newErrors f = []"
  shows "requests (snd (register_handleSubmit a f s)) =
     Post ''/auth/register''
       (RegisterBody \<lparr>register_name = name f, register_email = email f,
                      register_password = password f\<rparr>) # requests s"
proof -
  obtain b s1 where r: "register a (name f) (email f) (password f)
      (s\<lparr>register_errors := [], register_loading := True\<rparr>) = (Inr b, s1)"
    using register_returns [of a "name f" "email f" "password f"
        "s\<lparr>register_errors := [], register_loading := True\<rparr>"]
    by (cases "register a (name f) (email f) (password f)
      (s\<lparr>register_errors := [], register_loading := True\<rparr>)") auto
  have "requests s1 = Post ''/auth/register''
       (RegisterBody \<lparr>register_name = name f, register_email = email f,
                      register_password = password f\<rparr>) # requests s"
    using register_requests [of a "name f" "email f" "password f"
        "s\<lparr>register_errors := [], register_loading := True\<rparr>"] r by simp
  then show ?thesis
    using assms r
    by (simp add: register_handleSubmit_def register_validateForm_def bnd_def ret_def modify_def
        setRegisterErrors_def setRegisterLoading_def Let_def)
qed

lemma register_handleSubmit_invalid:
  assumes "register_newErrors f \<noteq> []"
  shows "register_handleSubmit a f s = (Inr (), s\<lparr>register_errors := register_newErrors f\<rparr>)"
  using assms
  by (simp add: register_handleSubmit_def register_validateForm_def bnd_def ret_def modify_def
        setRegisterErrors_def Let_def)

lemma register_valid_confirm:
  assumes "register_newErrors f = []"
  shows "confirmPassword f = password f"
  using assms by (simp add: register_newErrors_def split: if_splits)

text \<open>
  C10. A registration form that passes validation makes handleSubmit send one request, a
  POST of \<^verbatim>\<open>/auth/register\<close> whose body holds exactly the name, email and password of the
  form; confirmPassword is not part of it. Hence two forms that both pass validation and
  agree on name, email and password send the same request.
\<close>

theorem register_request_fields:
  assumes "register_newErrors f = []"
  shows "requests (snd (register_handleSubmit a f s)) =
       Post ''/auth/register''
         (RegisterBody \<lparr>register_name = name f, register_email = email f,
                        register_password = password f\<rparr>) # requests s \<and>
     (register_newErrors f' = [] \<and> name f' = name f \<and> email f' = email f \<and>
      password f' = password f \<longrightarrow>
        requests (snd (register_handleSubmit a f' s)) = requests (snd (register_handleSubmit a f s)))"
  using assms by (simp add: register_handleSubmit_valid)

theorem register_request_fields_witness:
  "register_newErrors \<lparr>name = ''Amina'', email = ''amina@example.org'', password = ''secret1'',
      confirmPassword = ''secret1''\<rparr> = [] \<and>
   requests (snd (register_handleSubmit accepting_api
      \<lparr>name = ''Amina'', email = ''amina@example.org'', password = ''secret1'',
        confirmPassword = ''secret1''\<rparr> held_state)) =
     [Post ''/auth/register''
        (RegisterBody \<lparr>register_name = ''Amina'', register_email = ''amina@example.org'',
                       register_password = ''secret1''\<rparr>)]"
proof -
  let ?f = "\<lparr>name = ''Amina'', email = ''amina@example.org'', password = ''secret1'',
      confirmPassword = ''secret1''\<rparr>"
  have v: "register_newErrors ?f = []" by code_simp
  show ?thesis
    using register_request_fields [OF v, of accepting_api held_state ?f] v
    by (simp add: held_state_def)
qed

section \<open>The due date check of the task form\<close>

lemma dueDate_error_iff:
  "dueDate_error clock formData \<longleftrightarrow>
     form_dueDate formData \<noteq> [] \<and> nan_less (Date_parse (form_dueDate formData)) (setHours0 clock)"
  by (simp add: dueDate_error_def taskForm_newErrors_def)

lemma dueDate_error_day:
  assumes "Date_parse (form_dueDate formData) = Some (d * msPerDay)"
  shows "dueDate_error clock formData \<longleftrightarrow> d * msPerDay < local_day clock * msPerDay - local_tza clock"
proof -
  have "form_dueDate formData \<noteq> []" using assms by (auto simp add: Date_parse_def)
  then show ?thesis using assms by (simp add: dueDate_error_iff nan_less_def setHours0_def)
qed

lemma past_day_rejected:
  assumes "Date_parse (form_dueDate formData) = Some (d * msPerDay)"
    and "d < local_day clock" and "local_tza clock < msPerDay"
  shows "dueDate_error clock formData"
proof -
  have "d + 1 \<le> local_day clock" using assms(2) by simp
  then have "(d + 1) * msPerDay \<le> local_day clock * msPerDay"
    by (simp add: msPerDay_def)
  then show ?thesis
    using assms(3) by (simp add: dueDate_error_day [OF assms(1)] algebra_simps)
qed

lemma same_day_accepted_east:
  assumes "Date_parse (form_dueDate formData) = Some (local_day clock * msPerDay)"
    and "0 \<le> local_tza clock"
  shows "\<not> dueDate_error clock formData"
  using assms(2) by (simp add: dueDate_error_day [OF assms(1)])

lemma same_day_rejected_west:
  assumes "Date_parse (form_dueDate formData) = Some (local_day clock * msPerDay)"
    and "local_tza clock < 0"
  shows "dueDate_error clock formData"
  using assms(2) by (simp add: dueDate_error_day [OF assms(1)])

lemma time_of_day_irrelevant:
  assumes "local_tza clock' = local_tza clock" and "local_day clock' = local_day clock"
  shows "taskForm_newErrors clock' formData = taskForm_newErrors clock formData"
  using assms by (simp add: taskForm_newErrors_def setHours0_def)

text \<open>
  C7. The due date is to be compared at day granularity: a due date on the current calendar
  day is not in the past. The check compares midnight UTC of the due date with local
  midnight of the current day, so west of UTC it rejects the current day
  (\<open>same_day_rejected_west\<close>), while a day strictly before the current one is rejected
  everywhere (\<open>past_day_rejected\<close>) and the time of day never matters
  (\<open>time_of_day_irrelevant\<close>). Here the clock reads 2024-06-15 15:00 UTC in a zone five
  hours west of UTC, so the local day is 2024-06-15, day 19889 of the epoch; the form holds
  the due date 2024-06-15, and validateForm reports it as being in the past.
\<close>

theorem taskForm_today_rejected_west_of_utc:
  "local_day \<lparr>now_ms = 1718463600000, local_tza = - 18000000\<rparr> = 19889 \<and>
   Date_parse ''2024-06-15'' = Some (19889 * msPerDay) \<and>
   taskForm_newErrors \<lparr>now_ms = 1718463600000, local_tza = - 18000000\<rparr>
     \<lparr>form_title = ''Buy milk'', form_description = '''', form_status = ''pending'',
      form_priority = ''medium'', form_dueDate = ''2024-06-15'', form_category = ''''\<rparr>
     = [(''dueDate'', ''Due date cannot be in the past'')] \<and>
   \<not> taskForm_validateForm \<lparr>now_ms = 1718463600000, local_tza = - 18000000\<rparr>
     \<lparr>form_title = ''Buy milk'', form_description = '''', form_status = ''pending'',
      form_priority = ''medium'', form_dueDate = ''2024-06-15'', form_category = ''''\<rparr>"
  by code_simp

end
